theory Spec2Isabelle
  imports Main "HOL-Library.Sublist"
begin

section \<open>The current inject implementation\<close>

text \<open>
  The module keeps one module-level variable, \<^verbatim>\<open>_injectImplementation\<close>, holding either
  \<^verbatim>\<open>undefined\<close> or a function. Functions are compared by identity only, so the type of
  implementations is left open (\<open>'f\<close>); \<^verbatim>\<open>undefined\<close> is \<open>None\<close>. The flag
  \<^verbatim>\<open>ngDevMode\<close> is the other global the module reads.
\<close>

record 'f inject_globals =
  injectImplementation :: "'f option"
  ngDevMode :: bool

datatype js_error = TypeError | AssertionError | FileNotFound

definition getInjectImplementation :: "'f inject_globals \<Rightarrow> 'f option" where
  "getInjectImplementation g = injectImplementation g"

text \<open>\<^verbatim>\<open>const previous = _injectImplementation; _injectImplementation = impl; return previous;\<close>\<close>

definition setInjectImplementation ::
  "'f option \<Rightarrow> 'f inject_globals \<Rightarrow> 'f option \<times> 'f inject_globals" where
  "setInjectImplementation impl g =
     (let previous = injectImplementation g
      in (previous, g\<lparr>injectImplementation := impl\<rparr>))"

text \<open>
  \<^verbatim>\<open>ngDevMode && assertNotEqual(_injectImplementation, fn, ...)\<close>: in development mode the
  call throws when the current implementation is \<open>fn\<close>; the globals are not written.
\<close>

definition assertInjectImplementationNotEqual ::
  "'f \<Rightarrow> 'f inject_globals \<Rightarrow> js_error + unit" where
  "assertInjectImplementationNotEqual fn g =
     (if ngDevMode g \<and> injectImplementation g = Some fn then Inl AssertionError else Inr ())"

section \<open>Incremental state\<close>

subsection \<open>Data\<close>

text \<open>
  A \<^verbatim>\<open>ts.SourceFile\<close> is used as a key of sets and maps, which compare objects by identity,
  and for its flag \<^verbatim>\<open>isDeclarationFile\<close>. The compiler keeps the object of a file that did
  not change and makes a new object for one that did, so the identity is a field of its own:
  two objects may have the same \<^verbatim>\<open>fileName\<close>. A class declaration is a key too (the maps
  compare declaration nodes by identity, so it has an identity field as well: two nodes of one
  file may have the same name) and knows its source file. The three metadata interfaces
  (\<^verbatim>\<open>DirectiveMeta\<close>, \<^verbatim>\<open>NgModuleMeta\<close>, \<^verbatim>\<open>PipeMeta\<close>) are declared outside this file; the
  state only reads their \<^verbatim>\<open>ref\<close>.
\<close>

record SourceFile =
  objectId :: nat
  fileName :: string
  isDeclarationFile :: bool

record ClassDeclaration =
  nodeId :: nat
  className :: string
  getSourceFile :: SourceFile

record Reference =
  node :: ClassDeclaration

record AnalysisMeta =
  ref :: Reference
  detail :: string

type_synonym DirectiveMeta = AnalysisMeta
type_synonym NgModuleMeta = AnalysisMeta
type_synonym PipeMeta = AnalysisMeta

record Program =
  getSourceFiles :: "SourceFile list"

text \<open>
  \<^verbatim>\<open>class FileMetadata\<close>: a set of files (a JavaScript \<^verbatim>\<open>Set\<close> iterates in insertion order,
  so it is a duplicate-free list here) and three maps keyed by class declaration.
\<close>

record FileMetadata =
  fileDependencies :: "SourceFile list"
  directiveMeta :: "ClassDeclaration \<rightharpoonup> DirectiveMeta"
  ngModuleMeta :: "ClassDeclaration \<rightharpoonup> NgModuleMeta"
  pipeMeta :: "ClassDeclaration \<rightharpoonup> PipeMeta"

definition new_FileMetadata :: FileMetadata where
  "new_FileMetadata =
     \<lparr>fileDependencies = [], directiveMeta = Map.empty,
      ngModuleMeta = Map.empty, pipeMeta = Map.empty\<rparr>"

text \<open>
  \<^verbatim>\<open>FileMetadata\<close> objects are shared: reconciliation stores the previous state's object in
  the new state's map. Objects therefore live in a store and are named by address. A state
  object owns its \<^verbatim>\<open>Set\<close> and its \<^verbatim>\<open>Map\<close> (both are created by the only two callers of the
  private constructor), so they are fields of the stored state.
\<close>

type_synonym addr = nat

record IncrementalState =
  unchangedFiles :: "SourceFile set"
  metadata :: "SourceFile \<rightharpoonup> addr"

record heap =
  states :: "addr \<Rightarrow> IncrementalState"
  nextState :: addr
  fileMetadatas :: "addr \<Rightarrow> FileMetadata"
  nextFileMetadata :: addr

definition empty_heap :: heap where
  "empty_heap =
     \<lparr>states = (\<lambda>_. \<lparr>unchangedFiles = {}, metadata = Map.empty\<rparr>), nextState = 0,
      fileMetadatas = (\<lambda>_. new_FileMetadata), nextFileMetadata = 0\<rparr>"

subsection \<open>Operations\<close>

text \<open>The private constructor: a new object at the next free address.\<close>

definition new_IncrementalState ::
  "SourceFile set \<Rightarrow> (SourceFile \<rightharpoonup> addr) \<Rightarrow> heap \<Rightarrow> addr \<times> heap" where
  "new_IncrementalState unchanged meta h =
     (nextState h,
      h\<lparr>states := (states h)(nextState h := \<lparr>unchangedFiles = unchanged, metadata = meta\<rparr>),
        nextState := Suc (nextState h)\<rparr>)"

definition fresh :: "heap \<Rightarrow> addr \<times> heap" where
  "fresh h = new_IncrementalState {} Map.empty h"

definition safeToSkip :: "heap \<Rightarrow> addr \<Rightarrow> SourceFile \<Rightarrow> bool" where
  "safeToSkip h this sf = (sf \<in> unchangedFiles (states h this))"

definition getFileDependencies :: "heap \<Rightarrow> addr \<Rightarrow> SourceFile \<Rightarrow> SourceFile list" where
  "getFileDependencies h this file =
     (case metadata (states h this) file of
        None \<Rightarrow> []
      | Some meta \<Rightarrow> fileDependencies (fileMetadatas h meta))"

text \<open>
  \<^verbatim>\<open>this.metadata.get(sf) || new FileMetadata(); this.metadata.set(sf, metadata)\<close>: an
  existing entry is written back unchanged, a missing one is allocated and entered.
\<close>

definition ensureMetadata :: "heap \<Rightarrow> addr \<Rightarrow> SourceFile \<Rightarrow> addr \<times> heap" where
  "ensureMetadata h this sf =
     (case metadata (states h this) sf of
        Some m \<Rightarrow> (m, h)
      | None \<Rightarrow>
          (let m = nextFileMetadata h;
               st = states h this
           in (m, h\<lparr>states := (states h)(this := st\<lparr>metadata := (metadata st)(sf \<mapsto> m)\<rparr>),
                    fileMetadatas := (fileMetadatas h)(m := new_FileMetadata),
                    nextFileMetadata := Suc m\<rparr>)))"

definition set_add :: "'a \<Rightarrow> 'a list \<Rightarrow> 'a list" where
  "set_add x xs = (if x \<in> set xs then xs else xs @ [x])"

definition trackFileDependency :: "heap \<Rightarrow> addr \<Rightarrow> SourceFile \<Rightarrow> SourceFile \<Rightarrow> heap" where
  "trackFileDependency h this dep src =
     (let (m, h1) = ensureMetadata h this src;
          fm = fileMetadatas h1 m
      in h1\<lparr>fileMetadatas :=
              (fileMetadatas h1)(m := fm\<lparr>fileDependencies := set_add dep (fileDependencies fm)\<rparr>)\<rparr>)"

text \<open>
  \<^verbatim>\<open>const metadata = this.metadata.get(ref.node.getSourceFile()) || null;
  return metadata && metadata.ngModuleMeta.get(ref.node) || null;\<close>
\<close>

definition getNgModuleMetadata :: "heap \<Rightarrow> addr \<Rightarrow> Reference \<Rightarrow> NgModuleMeta option" where
  "getNgModuleMetadata h this r =
     (case metadata (states h this) (getSourceFile (node r)) of
        None \<Rightarrow> None
      | Some m \<Rightarrow> ngModuleMeta (fileMetadatas h m) (node r))"

definition registerNgModuleMetadata :: "heap \<Rightarrow> addr \<Rightarrow> NgModuleMeta \<Rightarrow> heap" where
  "registerNgModuleMetadata h this meta =
     (let (m, h1) = ensureMetadata h this (getSourceFile (node (ref meta)));
          fm = fileMetadatas h1 m
      in h1\<lparr>fileMetadatas :=
              (fileMetadatas h1)(m := fm\<lparr>ngModuleMeta := (ngModuleMeta fm)(node (ref meta) \<mapsto> meta)\<rparr>)\<rparr>)"

definition getDirectiveMetadata :: "heap \<Rightarrow> addr \<Rightarrow> Reference \<Rightarrow> DirectiveMeta option" where
  "getDirectiveMetadata h this r =
     (case metadata (states h this) (getSourceFile (node r)) of
        None \<Rightarrow> None
      | Some m \<Rightarrow> directiveMeta (fileMetadatas h m) (node r))"

definition registerDirectiveMetadata :: "heap \<Rightarrow> addr \<Rightarrow> DirectiveMeta \<Rightarrow> heap" where
  "registerDirectiveMetadata h this meta =
     (let (m, h1) = ensureMetadata h this (getSourceFile (node (ref meta)));
          fm = fileMetadatas h1 m
      in h1\<lparr>fileMetadatas :=
              (fileMetadatas h1)(m := fm\<lparr>directiveMeta := (directiveMeta fm)(node (ref meta) \<mapsto> meta)\<rparr>)\<rparr>)"

definition getPipeMetadata :: "heap \<Rightarrow> addr \<Rightarrow> Reference \<Rightarrow> PipeMeta option" where
  "getPipeMetadata h this r =
     (case metadata (states h this) (getSourceFile (node r)) of
        None \<Rightarrow> None
      | Some m \<Rightarrow> pipeMeta (fileMetadatas h m) (node r))"

definition registerPipeMetadata :: "heap \<Rightarrow> addr \<Rightarrow> PipeMeta \<Rightarrow> heap" where
  "registerPipeMetadata h this meta =
     (let (m, h1) = ensureMetadata h this (getSourceFile (node (ref meta)));
          fm = fileMetadatas h1 m
      in h1\<lparr>fileMetadatas :=
              (fileMetadatas h1)(m := fm\<lparr>pipeMeta := (pipeMeta fm)(node (ref meta) \<mapsto> meta)\<rparr>)\<rparr>)"

text \<open>
  The loop of \<^verbatim>\<open>reconcile\<close> over \<^verbatim>\<open>newProgram.getSourceFiles()\<close>, with the two local
  collections as accumulators. \<open>None\<close> is the \<^verbatim>\<open>return IncrementalState.fresh()\<close> inside the
  loop; \<open>Some\<close> is falling out of the loop.
\<close>

fun reconcile_loop ::
  "heap \<Rightarrow> addr \<Rightarrow> SourceFile set \<Rightarrow> SourceFile set \<Rightarrow> SourceFile list \<Rightarrow>
   SourceFile set \<times> (SourceFile \<rightharpoonup> addr) \<Rightarrow> (SourceFile set \<times> (SourceFile \<rightharpoonup> addr)) option" where
  "reconcile_loop h previousState oldFiles newFiles [] acc = Some acc"
| "reconcile_loop h previousState oldFiles newFiles (newFile # rest) (unchanged, meta) =
     (if newFile \<in> oldFiles then
        (if list_all (\<lambda>oldDep. oldDep \<in> newFiles) (getFileDependencies h previousState newFile)
         then reconcile_loop h previousState oldFiles newFiles rest
                (insert newFile unchanged,
                 (case metadata (states h previousState) newFile of
                    None \<Rightarrow> meta
                  | Some m \<Rightarrow> meta(newFile \<mapsto> m)))
         else reconcile_loop h previousState oldFiles newFiles rest (unchanged, meta))
      else if isDeclarationFile newFile then None
      else reconcile_loop h previousState oldFiles newFiles rest (unchanged, meta))"

definition reconcile :: "heap \<Rightarrow> addr \<Rightarrow> Program \<Rightarrow> Program \<Rightarrow> addr \<times> heap" where
  "reconcile h previousState oldProgram newProgram =
     (let oldFiles = set (getSourceFiles oldProgram);
          newFiles = set (getSourceFiles newProgram)
      in case reconcile_loop h previousState oldFiles newFiles (getSourceFiles newProgram)
                ({}, Map.empty) of
           None \<Rightarrow> fresh h
         | Some (unchanged, meta) \<Rightarrow> new_IncrementalState unchanged meta h)"


text \<open>
  The test of the loop body for one file: it was in the old program and every file the
  previous state recorded as its dependency is in the new program.
\<close>

definition unchanged_file :: "heap \<Rightarrow> addr \<Rightarrow> SourceFile set \<Rightarrow> SourceFile set \<Rightarrow> SourceFile \<Rightarrow> bool" where
  "unchanged_file h previousState oldFiles newFiles f =
     (f \<in> oldFiles \<and> (\<forall>d \<in> set (getFileDependencies h previousState f). d \<in> newFiles))"


subsection \<open>Example programs and stores\<close>

text \<open>
  A store in which state \<open>0\<close> is fresh and has then recorded that \<^verbatim>\<open>a.ts\<close> depends on
  \<^verbatim>\<open>b.ts\<close>, and three programs over five files.
\<close>

definition file_a :: SourceFile where
  "file_a = \<lparr>objectId = 1, fileName = ''/app/a.ts'', isDeclarationFile = False\<rparr>"
definition file_b :: SourceFile where
  "file_b = \<lparr>objectId = 2, fileName = ''/app/b.ts'', isDeclarationFile = False\<rparr>"
definition file_c :: SourceFile where
  "file_c = \<lparr>objectId = 3, fileName = ''/app/c.ts'', isDeclarationFile = False\<rparr>"
definition file_e :: SourceFile where
  "file_e = \<lparr>objectId = 4, fileName = ''/app/e.ts'', isDeclarationFile = False\<rparr>"
definition file_d :: SourceFile where
  "file_d = \<lparr>objectId = 5, fileName = ''/app/types.d.ts'', isDeclarationFile = True\<rparr>"

definition tracked_heap :: heap where
  "tracked_heap = trackFileDependency (snd (fresh empty_heap)) 0 file_b file_a"

definition program_old :: Program where
  "program_old = \<lparr>getSourceFiles = [file_a, file_b, file_c]\<rparr>"
definition program_new :: Program where
  "program_new = \<lparr>getSourceFiles = [file_a, file_c, file_e]\<rparr>"
definition program_typings :: Program where
  "program_typings = \<lparr>getSourceFiles = [file_c, file_a, file_d, file_b]\<rparr>"



section \<open>The UMD rendering formatter\<close>

subsection \<open>Syntax trees\<close>

text \<open>
  The TypeScript nodes the formatter looks at, each with the offsets \<^verbatim>\<open>getStart()\<close> and
  \<^verbatim>\<open>getEnd()\<close> as its first two fields; every other kind of node is an \<open>OtherNode\<close> with its
  children. A binary expression carries the kind of its operator token.

  A node of the compiler knows its \<^verbatim>\<open>parent\<close>. Here a node is handed around together with
  the chain of its parents, nearest first, each with the slot the node below it fills, so
  that \<^verbatim>\<open>value.parent.whenFalse === value\<close> is the test that the slot is \<open>WhenFalse\<close>.
  \<open>forEachChild\<close> lists the children in the compiler's order, and \<open>find_node\<close> is
  \<^verbatim>\<open>test(node) ? node : node.forEachChild(child => find(child, test))\<close>: the first match
  in depth-first order.
\<close>

datatype SyntaxKind =
  AmpersandAmpersandToken | BarBarToken | CommaToken | EqualsEqualsEqualsToken
  | ExclamationEqualsEqualsToken | OtherToken

datatype Node =
    Identifier int int string
  | TypeOfExpression int int Node
  | BinaryExpression int int Node SyntaxKind Node
  | ConditionalExpression int int Node Node Node
  | CallExpression int int Node "Node list"
  | ParenthesizedExpression int int Node
  | ArrayLiteralExpression int int "Node list"
  | FunctionExpression int int "Node list" Node
  | Block int int "Node list"
  | ExpressionStatement int int Node
  | OtherNode int int "Node list"

fun getStart :: "Node \<Rightarrow> int" where
  "getStart (Identifier s e t) = s"
| "getStart (TypeOfExpression s e x) = s"
| "getStart (BinaryExpression s e l opr r) = s"
| "getStart (ConditionalExpression s e c t f) = s"
| "getStart (CallExpression s e f args) = s"
| "getStart (ParenthesizedExpression s e x) = s"
| "getStart (ArrayLiteralExpression s e xs) = s"
| "getStart (FunctionExpression s e ps b) = s"
| "getStart (Block s e ss) = s"
| "getStart (ExpressionStatement s e x) = s"
| "getStart (OtherNode s e cs) = s"

fun getEnd :: "Node \<Rightarrow> int" where
  "getEnd (Identifier s e t) = e"
| "getEnd (TypeOfExpression s e x) = e"
| "getEnd (BinaryExpression s e l opr r) = e"
| "getEnd (ConditionalExpression s e c t f) = e"
| "getEnd (CallExpression s e f args) = e"
| "getEnd (ParenthesizedExpression s e x) = e"
| "getEnd (ArrayLiteralExpression s e xs) = e"
| "getEnd (FunctionExpression s e ps b) = e"
| "getEnd (Block s e ss) = e"
| "getEnd (ExpressionStatement s e x) = e"
| "getEnd (OtherNode s e cs) = e"

datatype Slot = Condition | WhenTrue | WhenFalse | Child

type_synonym Parent = "Node \<times> Slot"
type_synonym Located = "Node \<times> Parent list"

fun forEachChild :: "Node \<Rightarrow> (Slot \<times> Node) list" where
  "forEachChild (Identifier s e t) = []"
| "forEachChild (TypeOfExpression s e x) = [(Child, x)]"
| "forEachChild (BinaryExpression s e l opr r) = [(Child, l), (Child, r)]"
| "forEachChild (ConditionalExpression s e c t f) = [(Condition, c), (WhenTrue, t), (WhenFalse, f)]"
| "forEachChild (CallExpression s e f args) = (Child, f) # map (Pair Child) args"
| "forEachChild (ParenthesizedExpression s e x) = [(Child, x)]"
| "forEachChild (ArrayLiteralExpression s e xs) = map (Pair Child) xs"
| "forEachChild (FunctionExpression s e ps b) = map (Pair Child) ps @ [(Child, b)]"
| "forEachChild (Block s e ss) = map (Pair Child) ss"
| "forEachChild (ExpressionStatement s e x) = [(Child, x)]"
| "forEachChild (OtherNode s e cs) = map (Pair Child) cs"

lemma size_list_member: "x \<in> set xs \<Longrightarrow> size x < Suc (size_list size xs)"
  by (induction xs) auto

lemma forEachChild_size: "(sl, c) \<in> set (forEachChild n) \<Longrightarrow> size c < size n"
  by (cases n) (auto dest: size_list_member)

fun first_some :: "'a option list \<Rightarrow> 'a option" where
  "first_some [] = None"
| "first_some (Some x # rest) = Some x"
| "first_some (None # rest) = first_some rest"

function find_node :: "(Located \<Rightarrow> bool) \<Rightarrow> Located \<Rightarrow> Located option" where
  "find_node test (n, anc) =
     (if test (n, anc) then Some (n, anc)
      else first_some (map (\<lambda>(sl, child). find_node test (child, (n, sl) # anc)) (forEachChild n)))"
  by pat_completeness auto
termination
  by (relation "measure (\<lambda>(test, n, anc). size n)") (auto dest: forEachChild_size)

declare find_node.simps [simp del]



subsection \<open>Recognising the branches of the wrapper\<close>

definition isCommaExpression :: "Node \<Rightarrow> bool" where
  "isCommaExpression value =
     (case value of BinaryExpression s e l opr r \<Rightarrow> opr = CommaToken | _ \<Rightarrow> False)"

definition isParenthesizedExpression :: "Node \<Rightarrow> bool" where
  "isParenthesizedExpression value =
     (case value of ParenthesizedExpression s e x \<Rightarrow> True | _ \<Rightarrow> False)"

definition isConditionalExpression :: "Node \<Rightarrow> bool" where
  "isConditionalExpression value =
     (case value of ConditionalExpression s e c t f \<Rightarrow> True | _ \<Rightarrow> False)"

text \<open>
  \<^verbatim>\<open>ts.isBinaryExpression(node) && ts.isTypeOfExpression(node.left) &&
  ts.isIdentifier(node.left.expression) && types.indexOf(node.left.expression.text) !== -1\<close>
\<close>

fun isTypeOf :: "Node \<Rightarrow> string list \<Rightarrow> bool" where
  "isTypeOf (BinaryExpression s e (TypeOfExpression s1 e1 (Identifier s2 e2 t)) opr r) types =
     (t \<in> set types)"
| "isTypeOf expression types = False"

fun oneOfBinaryConditions :: "Node \<Rightarrow> (Node \<Rightarrow> bool) \<Rightarrow> bool" where
  "oneOfBinaryConditions (BinaryExpression s e l opr r) test = (test l \<or> test r)"
| "oneOfBinaryConditions expression test = False"

fun isCommonJSConditional :: "Located \<Rightarrow> bool" where
  "isCommonJSConditional (ConditionalExpression s e (BinaryExpression s1 e1 l opr r) whenTrue whenFalse, anc) =
     (if opr \<noteq> AmpersandAmpersandToken then False
      else if \<not> oneOfBinaryConditions (BinaryExpression s1 e1 l opr r)
                  (\<lambda>exp. isTypeOf exp [''exports'', ''module'']) then False
      else (case whenTrue of
              CallExpression s2 e2 (Identifier s3 e3 t) args \<Rightarrow> t = ''factory''
            | _ \<Rightarrow> False))"
| "isCommonJSConditional value = False"

fun isAmdConditional :: "Located \<Rightarrow> bool" where
  "isAmdConditional (ConditionalExpression s e (BinaryExpression s1 e1 l opr r) whenTrue whenFalse, anc) =
     (if opr \<noteq> AmpersandAmpersandToken then False
      else if \<not> oneOfBinaryConditions (BinaryExpression s1 e1 l opr r)
                  (\<lambda>exp. isTypeOf exp [''define'']) then False
      else (case whenTrue of
              CallExpression s2 e2 (Identifier s3 e3 t) args \<Rightarrow> t = ''define''
            | _ \<Rightarrow> False))"
| "isAmdConditional value = False"

text \<open>
  The global factory call is found through its parents: a call whose parent, after stepping
  over a comma list and over parentheses, is a conditional of which it is the
  \<^verbatim>\<open>whenFalse\<close>. Only a source file has no parent, so the steps upwards from a node
  inside a function body always find one; the equations give \<open>False\<close> where the chain ends.
\<close>

fun isGlobalFactoryCall :: "Located \<Rightarrow> bool" where
  "isGlobalFactoryCall (CallExpression s e f args, (parent, slot) # up) =
     (let value1 = (if isCommaExpression parent then (parent, up)
                    else (CallExpression s e f args, (parent, slot) # up));
          value2 = (case snd value1 of
                      (parent1, slot1) # up1 \<Rightarrow>
                        if isParenthesizedExpression parent1 then (parent1, up1) else value1
                    | [] \<Rightarrow> value1)
      in case snd value2 of
           (parent2, slot2) # up2 \<Rightarrow> isConditionalExpression parent2 \<and> slot2 = WhenFalse
         | [] \<Rightarrow> False)"
| "isGlobalFactoryCall value = False"

subsection \<open>The text buffer and the imports\<close>

text \<open>
  Modelled from the spec: the buffer class \<^verbatim>\<open>MagicString\<close> comes from a package outside the
  source tree. Following the spec's Text Surgery Buffer, it is the original text and the
  ordered list of pending insertions, each anchored at an offset of the original text with a
  side; the text is never overwritten. In the rendered text the insertions at one offset
  stand before the character at that offset, those appended on the left before those
  appended on the right, each group in the order of the calls.
\<close>

datatype Side = AppendLeft | AppendRight

record MagicString =
  original :: string
  insertions :: "(int \<times> Side \<times> string) list"

definition appendLeft :: "MagicString \<Rightarrow> int \<Rightarrow> string \<Rightarrow> MagicString" where
  "appendLeft output index content =
     output\<lparr>insertions := insertions output @ [(index, AppendLeft, content)]\<rparr>"

definition appendRight :: "MagicString \<Rightarrow> int \<Rightarrow> string \<Rightarrow> MagicString" where
  "appendRight output index content =
     output\<lparr>insertions := insertions output @ [(index, AppendRight, content)]\<rparr>"




record Import =
  specifier :: string
  qualifier :: string

record UmdModule =
  wrapperFn :: Located
  factoryFn :: Node

text \<open>
  \<^verbatim>\<open>String.prototype.replace\<close> with a string pattern replaces the first occurrence only;
  \<^verbatim>\<open>replace(/^\//, '')\<close> drops one leading slash.
\<close>

fun replace_first :: "string \<Rightarrow> string \<Rightarrow> string \<Rightarrow> string" where
  "replace_first pat rep [] = (if pat = [] then rep else [])"
| "replace_first pat rep (c # cs) =
     (if prefix pat (c # cs) then rep @ drop (length pat) (c # cs)
      else c # replace_first pat rep cs)"

definition strip_leading_slash :: "string \<Rightarrow> string" where
  "strip_leading_slash s = (case s of c # cs \<Rightarrow> if c = CHR ''/'' then cs else s | [] \<Rightarrow> s)"

definition getGlobalIdentifier :: "Import \<Rightarrow> string" where
  "getGlobalIdentifier i = strip_leading_slash (replace_first ''@angular/'' ''ng.'' (specifier i))"

subsection \<open>The four edits of \<^verbatim>\<open>addImports\<close>\<close>

text \<open>Reading an array at an index: \<^verbatim>\<open>undefined\<close> (\<open>None\<close>) outside \<^verbatim>\<open>0 .. length - 1\<close>.\<close>

definition at_index :: "'a list \<Rightarrow> int \<Rightarrow> 'a option" where
  "at_index xs i = (if 0 \<le> i \<and> i < int (length xs) then Some (xs ! nat i) else None)"


text \<open>
  \<^verbatim>\<open>wrapperFunction.body.statements[0]\<close>, with the parents the statement has in the tree.
  Reading past a missing property throws; an empty body gives \<^verbatim>\<open>undefined\<close> (\<open>None\<close>).
\<close>

definition firstStatement :: "Located \<Rightarrow> js_error + Located option" where
  "firstStatement wrapperFunction =
     (case fst wrapperFunction of
        FunctionExpression s e ps (Block bs be statements) \<Rightarrow>
          (case at_index statements 0 of
             None \<Rightarrow> Inr None
           | Some st \<Rightarrow>
               Inr (Some (st, (Block bs be statements, Child)
                              # (fst wrapperFunction, Child) # snd wrapperFunction)))
      | _ \<Rightarrow> Inl TypeError)"

text \<open>
  \<^verbatim>\<open>find(node, test)\<close> on the first statement. Each test starts by reading \<^verbatim>\<open>kind\<close> of its
  argument, so \<^verbatim>\<open>find(undefined, test)\<close> throws.
\<close>

definition find_in_wrapper :: "(Located \<Rightarrow> bool) \<Rightarrow> Located \<Rightarrow> js_error + Located option" where
  "find_in_wrapper test wrapperFunction =
     (case firstStatement wrapperFunction of
        Inl err \<Rightarrow> Inl err
      | Inr None \<Rightarrow> Inl TypeError
      | Inr (Some statement) \<Rightarrow> Inr (find_node test statement))"

definition appendLeft_each :: "MagicString \<Rightarrow> int \<Rightarrow> (Import \<Rightarrow> string) \<Rightarrow> Import list \<Rightarrow> MagicString" where
  "appendLeft_each output injectionPoint content_of imports =
     foldl (\<lambda>out i. appendLeft out injectionPoint (content_of i)) output imports"

definition renderCommonJsDependencies ::
  "MagicString \<Rightarrow> Located \<Rightarrow> Import list \<Rightarrow> js_error + MagicString" where
  "renderCommonJsDependencies output wrapperFunction imports =
     (case find_in_wrapper isCommonJSConditional wrapperFunction of
        Inl err \<Rightarrow> Inl err
      | Inr None \<Rightarrow> Inr output
      | Inr (Some conditional) \<Rightarrow>
          (case fst conditional of
             ConditionalExpression s e c factoryCall f \<Rightarrow>
               Inr (appendLeft_each output (getEnd factoryCall - 1)
                      (\<lambda>i. '',require('' @ [CHR 0x27] @ specifier i @ [CHR 0x27] @ '')'') imports)
           | _ \<Rightarrow> Inl TypeError))"

definition renderAmdDependencies ::
  "MagicString \<Rightarrow> Located \<Rightarrow> Import list \<Rightarrow> js_error + MagicString" where
  "renderAmdDependencies output wrapperFunction imports =
     (case find_in_wrapper isAmdConditional wrapperFunction of
        Inl err \<Rightarrow> Inl err
      | Inr None \<Rightarrow> Inr output
      | Inr (Some conditional) \<Rightarrow>
          (case fst conditional of
             ConditionalExpression s e c (CallExpression s1 e1 f arguments) whenFalse \<Rightarrow>
               (case at_index arguments 1 of
                  Some (ArrayLiteralExpression s2 e2 elements) \<Rightarrow>
                    Inr (appendLeft_each output (e2 - 1)
                           (\<lambda>i. '','' @ [CHR 0x27] @ specifier i @ [CHR 0x27]) imports)
                | _ \<Rightarrow> Inr output)
           | _ \<Rightarrow> Inl TypeError))"

definition renderGlobalDependencies ::
  "MagicString \<Rightarrow> Located \<Rightarrow> Import list \<Rightarrow> js_error + MagicString" where
  "renderGlobalDependencies output wrapperFunction imports =
     (case find_in_wrapper isGlobalFactoryCall wrapperFunction of
        Inl err \<Rightarrow> Inl err
      | Inr None \<Rightarrow> Inr output
      | Inr (Some globalFactoryCall) \<Rightarrow>
          Inr (appendLeft_each output (getEnd (fst globalFactoryCall) - 1)
                 (\<lambda>i. '',global.'' @ getGlobalIdentifier i) imports))"

text \<open>
  \<^verbatim>\<open>wrapperFunction.parent as ts.CallExpression\<close> is an unchecked cast: with another parent,
  \<^verbatim>\<open>wrapperCall.arguments[1]\<close> reads an index of \<^verbatim>\<open>undefined\<close> and throws.
  \<^verbatim>\<open>parameters[parameters.length - 1].getEnd()\<close> throws on an empty parameter list.
\<close>

definition renderFactoryParameters ::
  "MagicString \<Rightarrow> Located \<Rightarrow> Import list \<Rightarrow> js_error + MagicString" where
  "renderFactoryParameters output wrapperFunction imports =
     (case snd wrapperFunction of
        (CallExpression s e f arguments, slot) # up \<Rightarrow>
          (case at_index arguments 1 of
             None \<Rightarrow> Inr output
           | Some secondArgument \<Rightarrow>
               (let factoryFunction =
                      (case secondArgument of
                         ParenthesizedExpression s1 e1 expression \<Rightarrow> expression
                       | _ \<Rightarrow> secondArgument)
                in case factoryFunction of
                     FunctionExpression s2 e2 parameters body \<Rightarrow>
                       (case at_index parameters (int (length parameters) - 1) of
                          None \<Rightarrow> Inl TypeError
                        | Some lastParameter \<Rightarrow>
                            Inr (appendLeft_each output (getEnd lastParameter)
                                   (\<lambda>i. '','' @ qualifier i) imports))
                   | _ \<Rightarrow> Inr output))
      | _ \<Rightarrow> Inl TypeError)"

definition and_then :: "'e + 'a \<Rightarrow> ('a \<Rightarrow> 'e + 'b) \<Rightarrow> 'e + 'b" where
  "and_then r f = (case r of Inl err \<Rightarrow> Inl err | Inr x \<Rightarrow> f x)"

text \<open>
  The formatter's host is the function \<^verbatim>\<open>getUmdModule\<close>, which is not in the source tree;
  it is a parameter. A thrown exception leaves the method at once, so the outcome of a
  method is the exception or the buffer after all its edits.
\<close>

definition addImports ::
  "('file \<Rightarrow> UmdModule option) \<Rightarrow> MagicString \<Rightarrow> Import list \<Rightarrow> 'file \<Rightarrow> js_error + MagicString" where
  "addImports getUmdModule output imports file =
     (case getUmdModule file of
        None \<Rightarrow> Inr output
      | Some umdModule \<Rightarrow>
          (let wrapperFunction = wrapperFn umdModule
           in and_then (renderCommonJsDependencies output wrapperFunction imports) (\<lambda>out1.
              and_then (renderAmdDependencies out1 wrapperFunction imports) (\<lambda>out2.
              and_then (renderGlobalDependencies out2 wrapperFunction imports) (\<lambda>out3.
              renderFactoryParameters out3 wrapperFunction imports)))))"

subsection \<open>Exports and constants\<close>

text \<open>
  \<^verbatim>\<open>addExports\<close> calls \<^verbatim>\<open>stripExtension\<close>, the path functions \<^verbatim>\<open>relative\<close> and \<^verbatim>\<open>dirname\<close>, and
  the import manager's \<^verbatim>\<open>generateNamedImport\<close>, all defined outside the source tree; they
  are parameters, and the import manager is a state of any type.
\<close>

record ExportInfo =
  exportIdentifier :: string
  from_file :: string

record NamedImport =
  symbol :: string
  moduleImport :: "string option"

record 'im export_helpers =
  stripExtension :: "string \<Rightarrow> string"
  relative :: "string \<Rightarrow> string \<Rightarrow> string"
  dirname :: "string \<Rightarrow> string"
  generateNamedImport :: "'im \<Rightarrow> string \<Rightarrow> string \<Rightarrow> NamedImport \<times> 'im"

definition addExport ::
  "'im export_helpers \<Rightarrow> int \<Rightarrow> string \<Rightarrow> MagicString \<times> 'im \<Rightarrow> ExportInfo \<Rightarrow> MagicString \<times> 'im" where
  "addExport helpers insertionPoint entryPointBasePath acc ex =
     (let output = fst acc; importManager = snd acc;
          basePath = stripExtension helpers (from_file ex);
          relativePath = ''./'' @ relative helpers (dirname helpers entryPointBasePath) basePath;
          (namedImport, importManager1) =
            (if entryPointBasePath \<noteq> basePath
             then generateNamedImport helpers importManager relativePath (exportIdentifier ex)
             else (\<lparr>symbol = exportIdentifier ex, moduleImport = None\<rparr>, importManager));
          importNamespace =
            (case moduleImport namedImport of
               None \<Rightarrow> []
             | Some m \<Rightarrow> if m = [] then [] else m @ ''.'');
          exportStr = [CHR 0x0A] @ ''exports.'' @ exportIdentifier ex @ '' = '' @ importNamespace
                        @ symbol namedImport @ '';''
      in (appendRight output insertionPoint exportStr, importManager1))"

definition addExports ::
  "'im export_helpers \<Rightarrow> ('file \<Rightarrow> UmdModule option) \<Rightarrow> MagicString \<Rightarrow> string \<Rightarrow>
   ExportInfo list \<Rightarrow> 'im \<Rightarrow> 'file \<Rightarrow> js_error + MagicString \<times> 'im" where
  "addExports helpers getUmdModule output entryPointBasePath exports importManager file =
     (case getUmdModule file of
        None \<Rightarrow> Inr (output, importManager)
      | Some umdModule \<Rightarrow>
          (case factoryFn umdModule of
             FunctionExpression s e ps (Block bs be statements) \<Rightarrow>
               (let lastStatement = at_index statements (int (length statements) - 1);
                    insertionPoint =
                      (case lastStatement of Some st \<Rightarrow> getEnd st | None \<Rightarrow> be - 1)
                in Inr (foldl (addExport helpers insertionPoint entryPointBasePath)
                          (output, importManager) exports))
           | _ \<Rightarrow> Inl TypeError))"

definition addConstants ::
  "('file \<Rightarrow> UmdModule option) \<Rightarrow> MagicString \<Rightarrow> string \<Rightarrow> 'file \<Rightarrow> js_error + MagicString" where
  "addConstants getUmdModule output constants file =
     (if constants = [] then Inr output
      else case getUmdModule file of
        None \<Rightarrow> Inr output
      | Some umdModule \<Rightarrow>
          (case factoryFn umdModule of
             FunctionExpression s e ps (Block bs be statements) \<Rightarrow>
               (let firstStatement = at_index statements 0;
                    insertionPoint =
                      (case firstStatement of Some st \<Rightarrow> getStart st | None \<Rightarrow> bs + 1)
                in Inr (appendLeft output insertionPoint ([CHR 0x0A] @ constants @ [CHR 0x0A])))
           | _ \<Rightarrow> Inl TypeError))"

subsection \<open>The seams of the wrapper\<close>












subsection \<open>An example wrapper\<close>

definition ex_text :: string where
  "ex_text = ''(function (global, factory) { typeof exports === 'object' && typeof module !== 'undefined' ? factory(exports, require('a')) : typeof define === 'function' && define.amd ? define('m', ['exports', 'a'], factory) : (factory(global.m, global.a)); }(this, (function (exports, a) { a.f(); })));''"
















definition ex_imports :: "Import list" where
  "ex_imports =
     [\<lparr>specifier = ''@angular/core'', qualifier = ''i0''\<rparr>,
      \<lparr>specifier = ''@angular/common'', qualifier = ''i1''\<rparr>]"

definition ex_output :: MagicString where
  "ex_output = \<lparr>original = ex_text, insertions = []\<rparr>"















section \<open>The dependency host\<close>

text \<open>
  Modelled from the spec: the class \<^verbatim>\<open>EsmDependencyHost\<close> (its methods \<^verbatim>\<open>findDependencies\<close>
  and \<^verbatim>\<open>hasImportOrReexportStatements\<close>) is missing from the source tree, which has only the
  tests of the class. The definitions below follow section 4.2 of the spec. The file system,
  the construction of a syntax tree with the walk over its top-level statements, and the
  module resolver with its classification of a target are the parameters of a host.
\<close>

datatype Resolution =
  Unresolved | Internal string | EntryPoint string | DeepImport string

record DependencyHost =
  files :: "(string \<times> string) list"
  moduleSpecifiers :: "string \<Rightarrow> string list"
  resolveModuleImport :: "string \<Rightarrow> string \<Rightarrow> Resolution"




text \<open>
  Modelled from the spec: the cheap test for an import-or-re-export-shaped statement is a
  search of the raw text for the word \<^verbatim>\<open>import\<close> or \<^verbatim>\<open>export\<close>, followed by a white-space
  character, then one or more characters on the same line, then the word \<^verbatim>\<open>from\<close>.
\<close>

definition is_space :: "char \<Rightarrow> bool" where
  "is_space c = (c \<in> {CHR '' '', CHR 0x09, CHR 0x0A, CHR 0x0B, CHR 0x0C, CHR 0x0D})"

definition is_line_break :: "char \<Rightarrow> bool" where
  "is_line_break c = (c \<in> {CHR 0x0A, CHR 0x0D})"

fun from_follows :: "string \<Rightarrow> bool" where
  "from_follows [] = False"
| "from_follows (c # cs) = (\<not> is_line_break c \<and> (prefix ''from'' cs \<or> from_follows cs))"

definition statement_shape :: "string \<Rightarrow> bool" where
  "statement_shape s = (case s of [] \<Rightarrow> False | c # cs \<Rightarrow> is_space c \<and> from_follows cs)"

fun hasImportOrReexportStatements :: "string \<Rightarrow> bool" where
  "hasImportOrReexportStatements [] = False"
| "hasImportOrReexportStatements (c # cs) =
     ((prefix ''import'' (c # cs) \<or> prefix ''export'' (c # cs)) \<and> statement_shape (drop 6 (c # cs))
      \<or> hasImportOrReexportStatements cs)"




subsection \<open>What the scan should find\<close>









subsection \<open>An example file system\<close>














section \<open>Properties of the inject switch\<close>

text \<open>
  Claim C9. For every value \<open>v\<close> and every prior content of the variable,
  \<^verbatim>\<open>setInjectImplementation(v)\<close> makes \<^verbatim>\<open>getInjectImplementation()\<close> return \<open>v\<close> and returns
  what was current before; setting the returned value again restores the globals, so
  \<^verbatim>\<open>getInjectImplementation()\<close> answers as it did originally.
\<close>

theorem setInjectImplementation_swap:
  "getInjectImplementation (snd (setInjectImplementation v g)) = v \<and>
   fst (setInjectImplementation v g) = getInjectImplementation g \<and>
   snd (setInjectImplementation (fst (setInjectImplementation v g))
          (snd (setInjectImplementation v g))) = g \<and>
   getInjectImplementation
     (snd (setInjectImplementation (fst (setInjectImplementation v g))
          (snd (setInjectImplementation v g)))) = getInjectImplementation g"
  by (simp add: setInjectImplementation_def getInjectImplementation_def)


section \<open>Properties of reconciliation\<close>

lemmas ex_defs = file_a_def file_b_def file_c_def file_d_def file_e_def tracked_heap_def
  trackFileDependency_def ensureMetadata_def fresh_def new_IncrementalState_def empty_heap_def
  new_FileMetadata_def set_add_def getFileDependencies_def safeToSkip_def reconcile_def
  program_old_def program_new_def program_typings_def


lemma reconcile_loop_None:
  "\<exists>f \<in> set fs. f \<notin> oldFiles \<and> isDeclarationFile f \<Longrightarrow>
   reconcile_loop h p oldFiles newFiles fs acc = None"
proof (induction fs arbitrary: acc)
  case Nil
  then show ?case by simp
next
  case (Cons f fs)
  obtain u m where acc: "acc = (u, m)" by (cases acc)
  show ?case
  proof (cases "f \<notin> oldFiles \<and> isDeclarationFile f")
    case True
    then show ?thesis by (simp add: acc)
  next
    case False
    with Cons.prems have "\<exists>g \<in> set fs. g \<notin> oldFiles \<and> isDeclarationFile g" by auto
    then show ?thesis using Cons.IH by (simp add: acc)
  qed
qed

lemma reconcile_loop_Some:
  "\<forall>f \<in> set fs. f \<in> oldFiles \<or> \<not> isDeclarationFile f \<Longrightarrow>
   reconcile_loop h p oldFiles newFiles fs (u, m) =
     Some (u \<union> {f \<in> set fs. unchanged_file h p oldFiles newFiles f},
           (\<lambda>f. if f \<in> set fs \<and> unchanged_file h p oldFiles newFiles f
                    \<and> metadata (states h p) f \<noteq> None
                 then metadata (states h p) f else m f))"
proof (induction fs arbitrary: u m)
  case Nil
  then show ?case by simp
next
  case (Cons f fs)
  then have IH: "\<And>u m. reconcile_loop h p oldFiles newFiles fs (u, m) =
     Some (u \<union> {f \<in> set fs. unchanged_file h p oldFiles newFiles f},
           (\<lambda>f. if f \<in> set fs \<and> unchanged_file h p oldFiles newFiles f
                    \<and> metadata (states h p) f \<noteq> None
                 then metadata (states h p) f else m f))" by simp
  from Cons.prems have hd: "f \<in> oldFiles \<or> \<not> isDeclarationFile f" by simp
  show ?case
  proof (cases "unchanged_file h p oldFiles newFiles f")
    case True
    then have a: "f \<in> oldFiles" and b: "list_all (\<lambda>d. d \<in> newFiles) (getFileDependencies h p f)"
      by (auto simp: unchanged_file_def list_all_iff)
    show ?thesis using a b True
      by (auto simp: IH fun_eq_iff split: option.splits)
  next
    case False
    then have "f \<notin> oldFiles \<or> \<not> list_all (\<lambda>d. d \<in> newFiles) (getFileDependencies h p f)"
      by (auto simp: unchanged_file_def list_all_iff)
    then show ?thesis using hd False
      by (auto simp: IH fun_eq_iff)
  qed
qed

lemma reconcile_loop_init:
  assumes "\<forall>f \<in> set fs. f \<in> oldFiles \<or> \<not> isDeclarationFile f"
  shows "reconcile_loop h p oldFiles newFiles fs ({}, Map.empty) =
     Some ({f \<in> set fs. unchanged_file h p oldFiles newFiles f},
           (\<lambda>f. if f \<in> set fs \<and> unchanged_file h p oldFiles newFiles f
                 then metadata (states h p) f else None))"
proof -
  have "(\<lambda>f. if f \<in> set fs \<and> unchanged_file h p oldFiles newFiles f
                \<and> metadata (states h p) f \<noteq> None
             then metadata (states h p) f else None)
      = (\<lambda>f. if f \<in> set fs \<and> unchanged_file h p oldFiles newFiles f
             then metadata (states h p) f else None)"
    by (auto simp: fun_eq_iff)
  with reconcile_loop_Some [OF assms, of h p newFiles "{}" Map.empty]
  show ?thesis by simp
qed

text \<open>The two ways \<^verbatim>\<open>reconcile\<close> can end.\<close>

lemma reconcile_cases:
  "(\<exists>f \<in> set (getSourceFiles newProgram). f \<notin> set (getSourceFiles oldProgram) \<and> isDeclarationFile f)
     \<and> reconcile h p oldProgram newProgram = fresh h
   \<or> (\<forall>f \<in> set (getSourceFiles newProgram). f \<in> set (getSourceFiles oldProgram) \<or> \<not> isDeclarationFile f)
     \<and> reconcile h p oldProgram newProgram =
         new_IncrementalState
           {f \<in> set (getSourceFiles newProgram).
              unchanged_file h p (set (getSourceFiles oldProgram)) (set (getSourceFiles newProgram)) f}
           (\<lambda>f. if f \<in> set (getSourceFiles newProgram)
                    \<and> unchanged_file h p (set (getSourceFiles oldProgram)) (set (getSourceFiles newProgram)) f
                 then metadata (states h p) f else None) h"
proof (cases "\<exists>f \<in> set (getSourceFiles newProgram). f \<notin> set (getSourceFiles oldProgram) \<and> isDeclarationFile f")
  case True
  then show ?thesis
    by (simp add: reconcile_def reconcile_loop_None)
next
  case False
  then have ok: "\<forall>f \<in> set (getSourceFiles newProgram). f \<in> set (getSourceFiles oldProgram) \<or> \<not> isDeclarationFile f"
    by blast
  show ?thesis
    by (simp add: reconcile_def reconcile_loop_init [OF ok] ok)
qed

text \<open>
  Claim C1 (as amended). When no declaration file of the new program is missing from the old
  program, \<^verbatim>\<open>reconcile\<close> marks a file as unchanged (\<^verbatim>\<open>safeToSkip\<close> holds on the result) exactly
  when the file is in the new program, is in the old program, and every dependency the
  previous state recorded for it is in the new program. For exactly those files the new
  state's metadata entry is the previous state's entry (the same object, if there was one);
  no other file gets an entry; and no \<^verbatim>\<open>FileMetadata\<close> object is written.
\<close>

theorem reconcile_unchanged_iff:
  assumes "\<forall>f \<in> set (getSourceFiles newProgram).
             isDeclarationFile f \<longrightarrow> f \<in> set (getSourceFiles oldProgram)"
  shows "case reconcile h previousState oldProgram newProgram of (s', h') \<Rightarrow>
     (\<forall>f. safeToSkip h' s' f \<longleftrightarrow>
            f \<in> set (getSourceFiles newProgram) \<and> f \<in> set (getSourceFiles oldProgram) \<and>
            (\<forall>d \<in> set (getFileDependencies h previousState f). d \<in> set (getSourceFiles newProgram))) \<and>
     (\<forall>f. metadata (states h' s') f =
            (if safeToSkip h' s' f then metadata (states h previousState) f else None)) \<and>
     fileMetadatas h' = fileMetadatas h"
proof -
  from assms have "\<not> (\<exists>f \<in> set (getSourceFiles newProgram).
      f \<notin> set (getSourceFiles oldProgram) \<and> isDeclarationFile f)" by blast
  with reconcile_cases [of newProgram oldProgram h previousState]
  have r: "reconcile h previousState oldProgram newProgram =
         new_IncrementalState
           {f \<in> set (getSourceFiles newProgram).
              unchanged_file h previousState (set (getSourceFiles oldProgram)) (set (getSourceFiles newProgram)) f}
           (\<lambda>f. if f \<in> set (getSourceFiles newProgram)
                    \<and> unchanged_file h previousState (set (getSourceFiles oldProgram)) (set (getSourceFiles newProgram)) f
                 then metadata (states h previousState) f else None) h"
    by blast
  show ?thesis
    by (simp add: r new_IncrementalState_def safeToSkip_def unchanged_file_def)
qed


text \<open>
  The theorem at the store \<open>tracked_heap\<close>: \<^verbatim>\<open>a.ts\<close> lost its dependency \<^verbatim>\<open>b.ts\<close> and is
  changed, \<^verbatim>\<open>c.ts\<close> is unchanged, and \<^verbatim>\<open>e.ts\<close> is new.
\<close>

theorem reconcile_unchanged_iff_witness:
  "\<not> safeToSkip (snd (reconcile tracked_heap 0 program_old program_new))
        (fst (reconcile tracked_heap 0 program_old program_new)) file_a \<and>
   safeToSkip (snd (reconcile tracked_heap 0 program_old program_new))
        (fst (reconcile tracked_heap 0 program_old program_new)) file_c \<and>
   \<not> safeToSkip (snd (reconcile tracked_heap 0 program_old program_new))
        (fst (reconcile tracked_heap 0 program_old program_new)) file_e \<and>
   getFileDependencies tracked_heap 0 file_a = [file_b] \<and>
   getFileDependencies tracked_heap 0 file_c = []"
proof -
  have hyp: "\<forall>f \<in> set (getSourceFiles program_new).
               isDeclarationFile f \<longrightarrow> f \<in> set (getSourceFiles program_old)"
    by (simp add: ex_defs)
  have deps: "getFileDependencies tracked_heap 0 file_a = [file_b]"
             "getFileDependencies tracked_heap 0 file_c = []"
    by (simp_all add: ex_defs)
  have files: "file_b \<notin> set (getSourceFiles program_new)"
    "file_c \<in> set (getSourceFiles program_new)" "file_c \<in> set (getSourceFiles program_old)"
    "file_e \<notin> set (getSourceFiles program_old)"
    by (simp_all add: file_a_def file_b_def file_c_def file_e_def program_old_def program_new_def)
  from reconcile_unchanged_iff [OF hyp, of tracked_heap 0] deps files
  show ?thesis
    by (simp add: split_beta)
qed

text \<open>
  Without that precondition the equivalence fails: when the new program has a declaration
  file the old one lacks,
  \<^verbatim>\<open>a.ts\<close> is in both programs and has no recorded dependency, yet the result does not
  mark it, because the loop returned the fresh state on reaching \<^verbatim>\<open>types.d.ts\<close>.
\<close>

theorem reconcile_unchanged_counterexample:
  "file_a \<in> set (getSourceFiles program_typings) \<and>
   file_a \<in> set (getSourceFiles program_old) \<and>
   getFileDependencies (snd (fresh empty_heap)) 0 file_a = [] \<and>
   \<not> safeToSkip (snd (reconcile (snd (fresh empty_heap)) 0 program_old program_typings))
        (fst (reconcile (snd (fresh empty_heap)) 0 program_old program_typings)) file_a"
  by (simp add: ex_defs)

text \<open>
  Claim C2. If the new program contains a declaration file that is not in the old program,
  wherever it stands in the list, \<^verbatim>\<open>reconcile\<close> returns the fresh state: its set of unchanged
  files and its metadata map are empty, \<^verbatim>\<open>safeToSkip\<close> is false for every file and
  \<^verbatim>\<open>getFileDependencies\<close> is empty for every file.
\<close>

theorem reconcile_new_declaration_file:
  assumes "\<exists>f \<in> set (getSourceFiles newProgram).
             isDeclarationFile f \<and> f \<notin> set (getSourceFiles oldProgram)"
  shows "reconcile h previousState oldProgram newProgram = fresh h \<and>
    (case reconcile h previousState oldProgram newProgram of (s', h') \<Rightarrow>
       unchangedFiles (states h' s') = {} \<and> metadata (states h' s') = Map.empty \<and>
       (\<forall>f. \<not> safeToSkip h' s' f) \<and> (\<forall>f. getFileDependencies h' s' f = []))"
proof -
  from assms have "\<not> (\<forall>f \<in> set (getSourceFiles newProgram).
      f \<in> set (getSourceFiles oldProgram) \<or> \<not> isDeclarationFile f)" by blast
  with reconcile_cases [of newProgram oldProgram h previousState]
  have r: "reconcile h previousState oldProgram newProgram = fresh h" by blast
  show ?thesis
    by (simp add: r fresh_def new_IncrementalState_def safeToSkip_def getFileDependencies_def)
qed

text \<open>
  The theorem at a program whose third file is the new declaration file: \<^verbatim>\<open>c.ts\<close>, which the
  loop had already accepted (it is skippable when the program does not change), is not
  skippable in the result.
\<close>

theorem reconcile_new_declaration_file_witness:
  "file_d \<in> set (getSourceFiles program_typings) \<and> isDeclarationFile file_d \<and>
   file_d \<notin> set (getSourceFiles program_old) \<and>
   safeToSkip (snd (reconcile tracked_heap 0 program_old program_old)) 1 file_c \<and>
   reconcile tracked_heap 0 program_old program_typings = fresh tracked_heap \<and>
   \<not> safeToSkip (snd (reconcile tracked_heap 0 program_old program_typings))
        (fst (reconcile tracked_heap 0 program_old program_typings)) file_c \<and>
   getFileDependencies (snd (reconcile tracked_heap 0 program_old program_typings))
        (fst (reconcile tracked_heap 0 program_old program_typings)) file_a = []"
proof -
  have mem: "file_d \<in> set (getSourceFiles program_typings)" "isDeclarationFile file_d"
    "file_d \<notin> set (getSourceFiles program_old)"
    by (simp_all add: ex_defs)
  then have hyp: "\<exists>f \<in> set (getSourceFiles program_typings).
             isDeclarationFile f \<and> f \<notin> set (getSourceFiles program_old)" by blast
  have before: "safeToSkip (snd (reconcile tracked_heap 0 program_old program_old)) 1 file_c"
    by (simp add: ex_defs)
  from reconcile_new_declaration_file [OF hyp, of tracked_heap 0, unfolded split_beta] mem before
  show ?thesis
    by blast
qed

text \<open>A second pass over an unchanged program skips every file.\<close>

lemma reconcile_same_program:
  assumes "\<forall>f \<in> set (getSourceFiles p). \<forall>d \<in> set (getFileDependencies h s f). d \<in> set (getSourceFiles p)"
  shows "reconcile h s p p =
     new_IncrementalState (set (getSourceFiles p))
       (\<lambda>f. if f \<in> set (getSourceFiles p) then metadata (states h s) f else None) h"
proof -
  have all: "\<And>f. f \<in> set (getSourceFiles p) \<Longrightarrow>
      unchanged_file h s (set (getSourceFiles p)) (set (getSourceFiles p)) f"
    using assms by (simp add: unchanged_file_def)
  have "\<not> (\<exists>f \<in> set (getSourceFiles p). f \<notin> set (getSourceFiles p) \<and> isDeclarationFile f)"
    by blast
  with reconcile_cases [of p p h s]
  have "reconcile h s p p =
         new_IncrementalState
           {f \<in> set (getSourceFiles p).
              unchanged_file h s (set (getSourceFiles p)) (set (getSourceFiles p)) f}
           (\<lambda>f. if f \<in> set (getSourceFiles p)
                    \<and> unchanged_file h s (set (getSourceFiles p)) (set (getSourceFiles p)) f
                 then metadata (states h s) f else None) h"
    by blast
  moreover have "{f \<in> set (getSourceFiles p).
              unchanged_file h s (set (getSourceFiles p)) (set (getSourceFiles p)) f}
       = set (getSourceFiles p)" using all by blast
  moreover have "(\<lambda>f. if f \<in> set (getSourceFiles p)
                    \<and> unchanged_file h s (set (getSourceFiles p)) (set (getSourceFiles p)) f
                 then metadata (states h s) f else None)
       = (\<lambda>f. if f \<in> set (getSourceFiles p) then metadata (states h s) f else None)"
    using all by (auto simp: fun_eq_iff)
  ultimately show ?thesis by simp
qed

lemma reconcile_result_deps:
  assumes "reconcile h previousState oldProgram p1 = (s, h1)"
      and "d \<in> set (getFileDependencies h1 s f)"
  shows "d \<in> set (getSourceFiles p1)"
proof -
  from reconcile_cases [of p1 oldProgram h previousState]
  show ?thesis
  proof (elim disjE conjE)
    assume "reconcile h previousState oldProgram p1 = fresh h"
    with assms show ?thesis
      by (auto simp: fresh_def new_IncrementalState_def getFileDependencies_def)
  next
    let ?M = "\<lambda>f. if f \<in> set (getSourceFiles p1)
                    \<and> unchanged_file h previousState (set (getSourceFiles oldProgram)) (set (getSourceFiles p1)) f
                 then metadata (states h previousState) f else None"
    assume "reconcile h previousState oldProgram p1 =
         new_IncrementalState
           {f \<in> set (getSourceFiles p1).
              unchanged_file h previousState (set (getSourceFiles oldProgram)) (set (getSourceFiles p1)) f}
           ?M h"
    with assms(1) have m: "metadata (states h1 s) = ?M" and fm: "fileMetadatas h1 = fileMetadatas h"
      by (auto simp: new_IncrementalState_def)
    from assms(2) have "\<exists>a. ?M f = Some a \<and> d \<in> set (fileDependencies (fileMetadatas h a))"
      by (cases "?M f") (simp_all add: getFileDependencies_def m fm)
    then obtain a where a: "?M f = Some a" "d \<in> set (fileDependencies (fileMetadatas h a))"
      by blast
    then have u: "unchanged_file h previousState (set (getSourceFiles oldProgram)) (set (getSourceFiles p1)) f"
      and pm: "metadata (states h previousState) f = Some a"
      by (auto split: if_splits)
    from pm a(2) have "d \<in> set (getFileDependencies h previousState f)"
      by (simp add: getFileDependencies_def)
    with u show ?thesis by (simp add: unchanged_file_def)
  qed
qed

text \<open>
  Claim C5. Let \<open>s\<close> be the state a reconciliation produced for a program, and \<open>p\<close> a program
  with the same file set. Reconciling \<open>s\<close> with \<open>p\<close> as both the old and the new program gives
  a state whose unchanged files are all the files of \<open>p\<close>: each of them is safe to skip.
\<close>

theorem reconcile_idempotent:
  assumes "reconcile h previousState oldProgram p1 = (s, h1)"
      and "set (getSourceFiles p1) = set (getSourceFiles p)"
  shows "case reconcile h1 s p p of (s2, h2) \<Rightarrow>
           unchangedFiles (states h2 s2) = set (getSourceFiles p) \<and>
           (\<forall>f \<in> set (getSourceFiles p). safeToSkip h2 s2 f)"
proof -
  have "\<forall>f \<in> set (getSourceFiles p). \<forall>d \<in> set (getFileDependencies h1 s f). d \<in> set (getSourceFiles p)"
    using reconcile_result_deps [OF assms(1)] assms(2) by blast
  from reconcile_same_program [OF this]
  show ?thesis
    by (simp add: new_IncrementalState_def safeToSkip_def)
qed

text \<open>
  The theorem at \<open>tracked_heap\<close>: the first pass leaves only \<^verbatim>\<open>c.ts\<close> unchanged, the second
  pass over the same program marks all three files.
\<close>

theorem reconcile_idempotent_witness:
  "set (getSourceFiles program_new) = set (getSourceFiles program_new) \<and>
   unchangedFiles (states (snd (reconcile tracked_heap 0 program_old program_new)) 1) = {file_c} \<and>
   unchangedFiles
     (states (snd (reconcile (snd (reconcile tracked_heap 0 program_old program_new)) 1
                      program_new program_new))
        (fst (reconcile (snd (reconcile tracked_heap 0 program_old program_new)) 1
                      program_new program_new)))
     = {file_a, file_c, file_e}"
proof -
  have first: "reconcile tracked_heap 0 program_old program_new =
     (1, snd (reconcile tracked_heap 0 program_old program_new))"
    by (simp add: ex_defs)
  have u1: "unchangedFiles (states (snd (reconcile tracked_heap 0 program_old program_new)) 1) = {file_c}"
    by (simp add: ex_defs)
  have fs: "set (getSourceFiles program_new) = {file_a, file_c, file_e}"
    by (simp add: program_new_def)
  from reconcile_idempotent [OF first refl] u1 fs
  show ?thesis
    by (simp add: split_beta)
qed

text \<open>
  Claim C6. \<^verbatim>\<open>reconcile\<close> returns a newly allocated state object, different from the previous
  state, and writes nothing else: every state allocated before and every \<^verbatim>\<open>FileMetadata\<close>
  object is as it was, so \<^verbatim>\<open>safeToSkip\<close>, \<^verbatim>\<open>getFileDependencies\<close>, \<^verbatim>\<open>getDirectiveMetadata\<close>,
  \<^verbatim>\<open>getNgModuleMetadata\<close> and \<^verbatim>\<open>getPipeMetadata\<close> on the previous state answer after the call
  what they answered before it, for every argument.
\<close>

theorem reconcile_frame:
  assumes "previousState < nextState h"
  shows "case reconcile h previousState oldProgram newProgram of (s', h') \<Rightarrow>
     s' = nextState h \<and> s' \<noteq> previousState \<and> nextState h' = Suc (nextState h) \<and>
     (\<forall>a < nextState h. states h' a = states h a) \<and>
     fileMetadatas h' = fileMetadatas h \<and>
     (\<forall>sf. safeToSkip h' previousState sf = safeToSkip h previousState sf) \<and>
     (\<forall>file. getFileDependencies h' previousState file = getFileDependencies h previousState file) \<and>
     (\<forall>r. getDirectiveMetadata h' previousState r = getDirectiveMetadata h previousState r) \<and>
     (\<forall>r. getNgModuleMetadata h' previousState r = getNgModuleMetadata h previousState r) \<and>
     (\<forall>r. getPipeMetadata h' previousState r = getPipeMetadata h previousState r)"
proof -
  obtain u m where r: "reconcile h previousState oldProgram newProgram = new_IncrementalState u m h"
    using reconcile_cases [of newProgram oldProgram h previousState]
    by (auto simp: fresh_def)
  from assms have ne: "previousState \<noteq> nextState h" by simp
  show ?thesis using assms ne
    by (simp add: r new_IncrementalState_def safeToSkip_def getFileDependencies_def
        getDirectiveMetadata_def getNgModuleMetadata_def getPipeMetadata_def
        split: option.splits)
qed

text \<open>
  The theorem at \<open>tracked_heap\<close>: the result is the object at address \<open>1\<close>, and state \<open>0\<close>
  still reports that \<^verbatim>\<open>a.ts\<close> depends on \<^verbatim>\<open>b.ts\<close>.
\<close>

theorem reconcile_frame_witness:
  "(0::nat) < nextState tracked_heap \<and>
   fst (reconcile tracked_heap 0 program_old program_new) = 1 \<and>
   getFileDependencies (snd (reconcile tracked_heap 0 program_old program_new)) 0 file_a = [file_b] \<and>
   \<not> safeToSkip (snd (reconcile tracked_heap 0 program_old program_new)) 0 file_c"
proof -
  have hyp: "(0::nat) < nextState tracked_heap"
    by (simp add: ex_defs)
  have obs: "getFileDependencies tracked_heap 0 file_a = [file_b]"
    "\<not> safeToSkip tracked_heap 0 file_c" "nextState tracked_heap = 1"
    by (simp_all add: ex_defs)
  from reconcile_frame [OF hyp, of program_old program_new] obs
  show ?thesis
    by (simp add: split_beta)
qed


section \<open>Properties of the UMD rendering formatter\<close>













subsection \<open>The example wrapper, evaluated\<close>














subsection \<open>The edits of \<^verbatim>\<open>addImports\<close>\<close>





subsection \<open>Files without a UMD module\<close>

text \<open>
  Claim C4. When \<^verbatim>\<open>getUmdModule\<close> finds no module for the file, \<^verbatim>\<open>addImports\<close>,
  \<^verbatim>\<open>addExports\<close> and \<^verbatim>\<open>addConstants\<close> each return normally with the buffer (and the import
  manager) exactly as they were: nothing is inserted or removed and no exception is thrown.
\<close>

theorem no_umd_module_no_edit:
  assumes "getUmdModule file = None"
  shows "addImports getUmdModule output imports file = Inr output \<and>
         addExports helpers getUmdModule output entryPointBasePath exports importManager file
           = Inr (output, importManager) \<and>
         addConstants getUmdModule output constants file = Inr output"
  using assms
  by (simp add: addImports_def addExports_def addConstants_def)

text \<open>The theorem at a host that finds no module, for the example buffer.\<close>

theorem no_umd_module_no_edit_witness:
  "addImports (\<lambda>file :: unit. None) ex_output ex_imports () = Inr ex_output \<and>
   addExports \<lparr>stripExtension = id, relative = (\<lambda>a b. b), dirname = id,
                generateNamedImport =
                  (\<lambda>(n :: nat) path name. (\<lparr>symbol = name, moduleImport = Some ''i0''\<rparr>, Suc n))\<rparr>
      (\<lambda>file :: unit. None) ex_output ''/app/index''
      [\<lparr>exportIdentifier = ''A'', from_file = ''/app/a.js''\<rparr>] 0 ()
     = Inr (ex_output, 0) \<and>
   addConstants (\<lambda>file :: unit. None) ex_output ''var x = 1;'' () = Inr ex_output \<and>
   insertions ex_output = []"
  using no_umd_module_no_edit [of "\<lambda>file :: unit. None" "()" ex_output ex_imports
      "\<lparr>stripExtension = id, relative = (\<lambda>a b. b), dirname = id,
        generateNamedImport =
          (\<lambda>(n :: nat) path name. (\<lparr>symbol = name, moduleImport = Some ''i0''\<rparr>, Suc n))\<rparr>"
      "''/app/index''" "[\<lparr>exportIdentifier = ''A'', from_file = ''/app/a.js''\<rparr>]" 0
      "''var x = 1;''"]
  by (simp add: ex_output_def)

subsection \<open>The factory parameters\<close>




section \<open>Properties of the dependency host\<close>
































text \<open>The cheap test on the texts of the repository's tests.\<close>

lemma hasImportOrReexportStatements_tests:
  "hasImportOrReexportStatements ''import {X} from \"some/x\";''"
  "hasImportOrReexportStatements ''import * as X from \"some/x\";''"
  "hasImportOrReexportStatements
     (''blah blah'' @ [CHR 0x0A, CHR 0x0A] @ ''  import {X} from \"some/x\";'' @ [CHR 0x0A] @ ''blah blah'')"
  "hasImportOrReexportStatements ([CHR 0x09, CHR 0x09] @ ''import {X} from \"some/x\";'')"
  "hasImportOrReexportStatements ''export {X} from \"some/x\";''"
  "hasImportOrReexportStatements
     (''blah blah'' @ [CHR 0x0A, CHR 0x0A] @ ''  export {X} from \"some/x\";'' @ [CHR 0x0A] @ ''blah blah'')"
  "hasImportOrReexportStatements ([CHR 0x09, CHR 0x09] @ ''export {X} from \"some/x\";'')"
  "hasImportOrReexportStatements
     (''blah blah'' @ [CHR 0x0A, CHR 0x0A] @ ''  export * from \"@angular/core;'' @ [CHR 0x0A] @ ''blah blah'')"
  "\<not> hasImportOrReexportStatements ''blah blah''"
  "\<not> hasImportOrReexportStatements ''export function moo() {}''"
  by (simp_all add: statement_shape_def is_space_def is_line_break_def)


end
